theory Spec2Isabelle
  imports Complex_Main
begin

section \<open>Python values, errors and loops\<close>

text \<open>
  The section integrator of \<^verbatim>\<open>structuralcodes\<close> is Python code working on
  floats and numpy arrays. Floating point numbers are modelled by the reals (exact
  arithmetic: rounding and overflow are outside the model), Python integers by
  \<^typ>\<open>int\<close>, lists and one-dimensional arrays by lists. Every exception the code can
  raise within the model is a value of \<open>error\<close>; a computation that may raise has a
  result of type \<open>error + 'a\<close>, with \<open>Inl\<close> for the exception.
\<close>

datatype error = IndexError | ValueError | ZeroDivisionError

definition bnd :: "error + 'a \<Rightarrow> ('a \<Rightarrow> error + 'b) \<Rightarrow> error + 'b" where
  "bnd r f = (case r of Inl e \<Rightarrow> Inl e | Inr v \<Rightarrow> f v)"

text \<open>\<^verbatim>\<open>for x in xs: s = body(x, s)\<close>, stopping at the first exception.\<close>

fun for_loop :: "'a list \<Rightarrow> ('a \<Rightarrow> 's \<Rightarrow> error + 's) \<Rightarrow> 's \<Rightarrow> error + 's" where
  "for_loop [] body s = Inr s"
| "for_loop (x # xs) body s = bnd (body x s) (for_loop xs body)"

text \<open>\<^verbatim>\<open>[f(x) for x in xs]\<close>, stopping at the first exception.\<close>

fun comprehension :: "('a \<Rightarrow> error + 'b) \<Rightarrow> 'a list \<Rightarrow> error + 'b list" where
  "comprehension f [] = Inr []"
| "comprehension f (x # xs) =
     bnd (f x) (\<lambda>v. bnd (comprehension f xs) (\<lambda>vs. Inr (v # vs)))"

text \<open>\<^verbatim>\<open>range(n)\<close>: the integers \<open>0, \<dots>, n - 1\<close>, none when \<open>n \<le> 0\<close>.\<close>

definition range_py :: "int \<Rightarrow> int list" where
  "range_py n = [0..n - 1]"

text \<open>\<^verbatim>\<open>xs[i]\<close>: a negative index counts from the end, an index out of range raises.\<close>

definition getitem :: "'a list \<Rightarrow> int \<Rightarrow> error + 'a" where
  "getitem xs i =
     (if 0 \<le> i \<and> i < int (length xs) then Inr (xs ! nat i)
      else if i < 0 \<and> - int (length xs) \<le> i then Inr (xs ! nat (int (length xs) + i))
      else Inl IndexError)"

text \<open>
  \<^verbatim>\<open>math.comb(n, k)\<close> of the standard library: the number of ways to choose \<open>k\<close>
  items from \<open>n\<close>, zero when \<open>k > n\<close>, and a \<^verbatim>\<open>ValueError\<close> when an argument is
  negative.
\<close>

definition comb :: "int \<Rightarrow> int \<Rightarrow> error + int" where
  "comb n k =
     (if n < 0 \<or> k < 0 then Inl ValueError else Inr (int (nat n choose nat k)))"

section \<open>Marin integration (\<^verbatim>\<open>sections/_marin_integration.py\<close>)\<close>

text \<open>
  \<^verbatim>\<open>_coeff(m, n, j, k)\<close>, the function under the cache decorator:
  \<^verbatim>\<open>math.comb(j + k, j) * math.comb(m + n - j - k, n - k)\<close>.
\<close>

definition coeff :: "int \<Rightarrow> int \<Rightarrow> int \<Rightarrow> int \<Rightarrow> error + int" where
  "coeff m n j k =
     bnd (comb (j + k) j) (\<lambda>a. bnd (comb (m + n - j - k) (n - k)) (\<lambda>b. Inr (a * b)))"

text \<open>
  The three nested loops of \<^verbatim>\<open>marin_integration\<close>, innermost first. The exponents
  \<open>n - k\<close>, \<open>k\<close>, \<open>m - j\<close> and \<open>j\<close> are never negative inside the loops, since
  \<open>k\<close> ranges over \<^verbatim>\<open>range(n + 1)\<close> and \<open>j\<close> over \<^verbatim>\<open>range(m + 1)\<close>.
\<close>

definition ssk_step :: "real list \<Rightarrow> int \<Rightarrow> int \<Rightarrow> int \<Rightarrow> int \<Rightarrow> int \<Rightarrow> real \<Rightarrow> error + real" where
  "ssk_step z i m n j k ssk =
     bnd (coeff m n j k) (\<lambda>c.
     bnd (getitem z i) (\<lambda>zi.
     bnd (getitem z (i + 1)) (\<lambda>zi1.
       Inr (ssk + real_of_int c * zi ^ nat (n - k) * zi1 ^ nat k))))"

definition ssj_step :: "real list \<Rightarrow> real list \<Rightarrow> int \<Rightarrow> int \<Rightarrow> int \<Rightarrow> int \<Rightarrow> real \<Rightarrow> error + real" where
  "ssj_step y z i m n j ssj =
     bnd (for_loop (range_py (n + 1)) (ssk_step z i m n j) 0) (\<lambda>ssk.
     bnd (getitem y i) (\<lambda>yi.
     bnd (getitem y (i + 1)) (\<lambda>yi1.
       Inr (ssj + ssk * yi ^ nat (m - j) * yi1 ^ nat j))))"

definition mom_step :: "real list \<Rightarrow> real list \<Rightarrow> int \<Rightarrow> int \<Rightarrow> int \<Rightarrow> real \<Rightarrow> error + real" where
  "mom_step y z m n i mom =
     bnd (for_loop (range_py (m + 1)) (ssj_step y z i m n) 0) (\<lambda>ssj.
     bnd (getitem y i) (\<lambda>yi.
     bnd (getitem z (i + 1)) (\<lambda>zi1.
     bnd (getitem y (i + 1)) (\<lambda>yi1.
     bnd (getitem z i) (\<lambda>zi.
       Inr (mom + ssj * (yi * zi1 - yi1 * zi)))))))"

definition marin_integration :: "real list \<Rightarrow> real list \<Rightarrow> int \<Rightarrow> int \<Rightarrow> error + real" where
  "marin_integration y z m n =
     bnd (for_loop (range_py (int (length y) - 1)) (mom_step y z m n) 0) (\<lambda>mom.
     bnd (comb (m + n) n) (\<lambda>c.
       let d = c * (m + n + 1) * (m + n + 2)
       in if d = 0 then Inl ZeroDivisionError else Inr (mom / real_of_int d)))"

text \<open>
  The decorator \<^verbatim>\<open>@functools.lru_cache\<close> (bare, so \<^verbatim>\<open>maxsize=128\<close>) keeps the
  values of the most recently used argument tuples, most recent first. A hit returns the
  stored value and moves the entry to the front; a miss calls the function, stores the
  value in front and drops the least recently used entry when the cache is full; a call
  that raises stores nothing.
\<close>

type_synonym coeff_cache = "((int \<times> int \<times> int \<times> int) \<times> int) list"

definition coeff_cached ::
  "int \<times> int \<times> int \<times> int \<Rightarrow> coeff_cache \<Rightarrow> (error + int) \<times> coeff_cache" where
  "coeff_cached key cache =
     (case map_of cache key of
        Some v \<Rightarrow> (Inr v, (key, v) # filter (\<lambda>e. fst e \<noteq> key) cache)
      | None \<Rightarrow>
          (case (case key of (m, n, j, k) \<Rightarrow> coeff m n j k) of
             Inl e \<Rightarrow> (Inl e, cache)
           | Inr v \<Rightarrow> (Inr v, take 128 ((key, v) # cache))))"

text \<open>The state of the cache after a sequence of calls, starting from \<open>cache\<close>.\<close>

fun cache_after :: "(int \<times> int \<times> int \<times> int) list \<Rightarrow> coeff_cache \<Rightarrow> coeff_cache" where
  "cache_after [] cache = cache"
| "cache_after (key # keys) cache = cache_after keys (snd (coeff_cached key cache))"

section \<open>Materials (\<^verbatim>\<open>core/base.py\<close>)\<close>

text \<open>
  \<^verbatim>\<open>Material.__init__(density, name=None)\<close> sets the private attributes
  \<^verbatim>\<open>_density\<close> and \<^verbatim>\<open>_name\<close>; the properties \<^verbatim>\<open>name\<close> and \<^verbatim>\<open>density\<close>
  read them.
\<close>

record Material =
  density_attr :: real
  name_attr :: string

definition Material_init :: "real \<Rightarrow> string option \<Rightarrow> Material" where
  "Material_init density name =
     \<lparr>density_attr = \<bar>density\<bar>,
      name_attr = (case name of Some s \<Rightarrow> s | None \<Rightarrow> ''Material'')\<rparr>"

definition name :: "Material \<Rightarrow> string" where
  "name self = name_attr self"

definition density :: "Material \<Rightarrow> real" where
  "density self = density_attr self"

section \<open>The section integrator (\<^verbatim>\<open>sections/_section_integrators.py\<close>)\<close>

subsection \<open>Geometry and constitutive laws, as the integrator sees them\<close>

text \<open>
  The geometry classes (\<^verbatim>\<open>_generic.py\<close>, \<^verbatim>\<open>_geometry.py\<close>), the constitutive
  laws and the polygon library are used by the integrator through a few attributes and
  methods only.
  Attributes are record fields; the methods are the fields of \<open>constitutive\<close> (the
  material of a geometry) and of \<open>engine\<close> (the geometry classes and the polygon
  library), left arbitrary.
\<close>

record ring =
  xy :: "real list \<times> real list"
  is_ccw :: bool

type_synonym bbox = "real \<times> real \<times> real \<times> real"

record polygon =
  exterior :: ring
  interiors :: "ring list"
  bounds :: bbox

text \<open>What \<^verbatim>\<open>split_two_lines\<close> may return, as far as \<^verbatim>\<open>isinstance\<close> tells.\<close>

datatype geometry = Polygon polygon | MultiPolygon "polygon list" | OtherGeometry

record constitutive =
  marin :: "real \<times> real \<Rightarrow> (real \<times> real) list \<times> real list list"
  get_stress :: "real \<Rightarrow> real list"

record surface_geometry =
  polygon :: polygon
  material :: constitutive

record point_geometry =
  point :: "real \<times> real"
  area :: real
  pmaterial :: constitutive

record compound_geometry =
  geometries :: "surface_geometry list"
  point_geometries :: "point_geometry list"

record 'l engine =
  rotate :: "compound_geometry \<Rightarrow> real \<Rightarrow> compound_geometry"
  create_line_point_angle :: "real \<times> real \<Rightarrow> real \<Rightarrow> bbox \<Rightarrow> 'l"
  split_two_lines :: "surface_geometry \<Rightarrow> 'l \<times> 'l \<Rightarrow> geometry"
  orient :: "polygon \<Rightarrow> real \<Rightarrow> polygon"

subsection \<open>Library arithmetic\<close>

text \<open>
  \<^verbatim>\<open>math.atan2(y, x)\<close>: the angle of the vector \<open>(x, y)\<close> from the positive
  \<open>x\<close> axis, in \<open>[-\<pi>, \<pi>]\<close>, and \<open>0\<close> at the origin.
\<close>

definition atan2 :: "real \<Rightarrow> real \<Rightarrow> real" where
  "atan2 y x =
     (if 0 < x then arctan (y / x)
      else if x < 0 then (if 0 \<le> y then arctan (y / x) + pi else arctan (y / x) - pi)
      else if 0 < y then pi / 2
      else if y < 0 then - pi / 2
      else 0)"

text \<open>
  Division of Python floats: a zero divisor raises. (Were the operands numpy scalars, the
  quotient would be an infinity or not a number; the model follows Python's own floats.)
\<close>

definition truediv :: "real \<Rightarrow> real \<Rightarrow> error + real" where
  "truediv a b = (if b = 0 then Inl ZeroDivisionError else Inr (a / b))"

text \<open>
  The product \<^verbatim>\<open>a * b\<close> of two one-dimensional numpy arrays: elementwise, an array
  of length one is broadcast, any other pair of different lengths raises.
\<close>

definition np_mul :: "real list \<Rightarrow> real list \<Rightarrow> error + real list" where
  "np_mul a b =
     (if length a = length b then Inr (map2 (*) a b)
      else if length a = 1 then Inr (map ((*) (hd a)) b)
      else if length b = 1 then Inr (map (\<lambda>x. x * hd b) a)
      else Inl ValueError)"

text \<open>The matrix product \<^verbatim>\<open>A @ B\<close> of two-dimensional arrays of matching shapes.\<close>

definition matmul :: "real list list \<Rightarrow> real list list \<Rightarrow> real list list" where
  "matmul A B = map (\<lambda>row. map (\<lambda>col. sum_list (map2 (*) row col)) (transpose B)) A"

subsection \<open>\<^verbatim>\<open>MarinIntegrator.prepare_input\<close>\<close>

text \<open>
  A prepared part is the tuple \<^verbatim>\<open>(i, y, z, stress_coeff)\<close>: the tag \<open>0\<close> for a
  polygon ring with its stress coefficients, \<open>1\<close> for the reinforcement points with
  their forces.
\<close>

type_synonym part = "int \<times> real list \<times> real list \<times> real list"

definition hole_step :: "real list \<Rightarrow> ring \<Rightarrow> part list \<Rightarrow> error + part list" where
  "hole_step coeffs i prepared_input =
     (if is_ccw i then Inl ValueError
      else case xy i of (x, y) \<Rightarrow> Inr (prepared_input @ [(0, x, y, coeffs)]))"

definition get_input_polygon ::
  "'l engine \<Rightarrow> polygon \<Rightarrow> real list \<Rightarrow> part list \<Rightarrow> error + part list" where
  "get_input_polygon eng pol coeffs prepared_input =
     (let pol = orient eng pol 1
      in if \<not> is_ccw (exterior pol) then Inl ValueError
         else case xy (exterior pol) of (x, y) \<Rightarrow>
           for_loop (interiors pol) (hole_step coeffs) (prepared_input @ [(0, x, y, coeffs)]))"

definition strain_limit_step ::
  "'l engine \<Rightarrow> surface_geometry \<Rightarrow> real \<times> real \<Rightarrow> (real \<times> real) list \<Rightarrow> real list list
     \<Rightarrow> int \<Rightarrow> part list \<Rightarrow> error + part list" where
  "strain_limit_step eng g strain_rotated strains coeffs p prepared_input =
     bnd (getitem strains p) (\<lambda>sp0.
     bnd (truediv (fst strain_rotated - fst sp0) (snd strain_rotated)) (\<lambda>y0.
     bnd (getitem strains p) (\<lambda>sp1.
     bnd (truediv (fst strain_rotated - snd sp1) (snd strain_rotated)) (\<lambda>y1.
       let (y0, y1) = (if y0 > y1 then (y1, y0) else (y0, y1));
           bbox = bounds (polygon g);
           line0 = create_line_point_angle eng (0, y0) 0 bbox;
           line1 = create_line_point_angle eng (0, y1) 0 bbox
       in case split_two_lines eng g (line0, line1) of
            Polygon pol \<Rightarrow>
              bnd (getitem coeffs p) (\<lambda>c. get_input_polygon eng pol c prepared_input)
          | MultiPolygon pols \<Rightarrow>
              for_loop pols
                (\<lambda>pol acc. bnd (getitem coeffs p) (\<lambda>c. get_input_polygon eng pol c acc))
                prepared_input
          | OtherGeometry \<Rightarrow> Inr prepared_input))))"

definition surface_step ::
  "'l engine \<Rightarrow> real \<times> real \<Rightarrow> surface_geometry \<Rightarrow> part list \<Rightarrow> error + part list" where
  "surface_step eng strain_rotated g prepared_input =
     (case marin (material g) strain_rotated of (strains, coeffs) \<Rightarrow>
        for_loop (range_py (int (length strains)))
          (strain_limit_step eng g strain_rotated strains coeffs) prepared_input)"

definition point_step ::
  "real \<times> real \<Rightarrow> point_geometry \<Rightarrow> real list \<times> real list \<times> real list
     \<Rightarrow> error + real list \<times> real list \<times> real list" where
  "point_step strain_rotated pg acc =
     (case acc of (x, y, F) \<Rightarrow>
      case point pg of (xp, yp) \<Rightarrow>
        let A = area pg;
            strain = fst strain_rotated - snd strain_rotated * yp
        in bnd (getitem (get_stress (pmaterial pg) strain) 0) (\<lambda>s.
             Inr (x @ [xp], y @ [yp], F @ [s * A])))"

definition prepare_input ::
  "'l engine \<Rightarrow> compound_geometry \<Rightarrow> real \<times> real \<times> real \<Rightarrow> error + real \<times> part list" where
  "prepare_input eng geo strain =
     (case strain of (ea, ky, kz) \<Rightarrow>
        let angle = atan2 kz ky;
            rotated_geom = rotate eng geo angle;
            strain_rotated = (ea, sqrt (kz\<^sup>2 + ky\<^sup>2))
        in bnd (for_loop (geometries rotated_geom) (surface_step eng strain_rotated) [])
             (\<lambda>prepared_input.
           bnd (for_loop (point_geometries rotated_geom) (point_step strain_rotated) ([], [], []))
             (\<lambda>(x, y, F). Inr (angle, prepared_input @ [(1, x, y, F)]))))"

subsection \<open>\<^verbatim>\<open>MarinIntegrator.integrate\<close>\<close>

definition integrate_part ::
  "part \<Rightarrow> real \<times> real \<times> real \<Rightarrow> error + real \<times> real \<times> real" where
  "integrate_part prt acc =
     (case prt of (i, y, z, stress_coeff) \<Rightarrow>
      case acc of (N, Mx, My) \<Rightarrow>
        if i = 0 then
          let n = int (length stress_coeff)
          in bnd (comprehension (\<lambda>k. marin_integration y z 0 k) (range_py n)) (\<lambda>area_moments_N.
             bnd (comprehension (\<lambda>k. marin_integration y z 0 (k + 1)) (range_py n)) (\<lambda>area_moments_Mx.
             bnd (comprehension (\<lambda>k. marin_integration y z 1 k) (range_py n)) (\<lambda>area_moments_My.
             bnd (np_mul stress_coeff area_moments_N) (\<lambda>cN.
             bnd (np_mul stress_coeff area_moments_Mx) (\<lambda>cMx.
             bnd (np_mul stress_coeff area_moments_My) (\<lambda>cMy.
               Inr (N + sum_list cN, Mx + sum_list cMx, My + sum_list cMy)))))))
        else if i = 1 then
          bnd (np_mul stress_coeff z) (\<lambda>Fz.
          bnd (np_mul stress_coeff y) (\<lambda>Fy.
            Inr (N + sum_list stress_coeff, Mx + sum_list Fz, My + sum_list Fy)))
        else Inr (N, Mx, My))"

text \<open>
  After the loop the moments are rotated back: \<^verbatim>\<open>T @ [[Mx], [My]]\<close> with the matrix
  \<^verbatim>\<open>T = [[cos, sin], [-sin, cos]]\<close>; the entries \<^verbatim>\<open>M[0,0]\<close> and \<^verbatim>\<open>M[1,0]\<close> of
  the 2 by 1 product are returned. (The \<^verbatim>\<open>print(angle)\<close> in between only writes to the
  standard output.)
\<close>

definition integrate :: "real \<Rightarrow> part list \<Rightarrow> error + real \<times> real \<times> real" where
  "integrate angle prepared_input =
     bnd (for_loop prepared_input integrate_part (0, 0, 0)) (\<lambda>(N, Mx, My).
       let T = [[cos angle, sin angle], [- sin angle, cos angle]];
           M = matmul T [[Mx], [My]]
       in Inr (N, M ! 0 ! 0, M ! 1 ! 0))"

definition integrate_strain_response_on_geometry ::
  "'l engine \<Rightarrow> compound_geometry \<Rightarrow> real \<times> real \<times> real \<Rightarrow> error + real \<times> real \<times> real" where
  "integrate_strain_response_on_geometry eng geo strain =
     bnd (prepare_input eng geo strain) (\<lambda>(angle, prepared_input).
       integrate angle prepared_input)"

subsection \<open>\<^verbatim>\<open>IntegratorFactory\<close>\<close>

text \<open>
  The registry maps a name to an integrator class. A Python value here is either a class
  object or an instance of a class (with the number that tells instances apart).
\<close>

datatype pyobject = Class string | Instance string nat

definition MarinIntegrator :: pyobject where
  "MarinIntegrator = Class ''MarinIntegrator''"

definition integrator_registry :: "string \<rightharpoonup> pyobject" where
  "integrator_registry = [''Marin'' \<mapsto> MarinIntegrator]"

record IntegratorFactory =
  instances :: "string \<rightharpoonup> pyobject"
  registry :: "string \<rightharpoonup> pyobject"

definition IntegratorFactory_init :: "(string \<rightharpoonup> pyobject) \<Rightarrow> IntegratorFactory" where
  "IntegratorFactory_init reg = \<lparr>instances = Map.empty, registry = reg\<rparr>"

text \<open>\<^verbatim>\<open>d.get(k, default)\<close> and \<^verbatim>\<open>d.setdefault(k, v)\<close> of a dictionary.\<close>

definition dict_get :: "('k \<rightharpoonup> 'v) \<Rightarrow> 'k \<Rightarrow> 'v \<Rightarrow> 'v" where
  "dict_get d k dflt = (case d k of Some v \<Rightarrow> v | None \<Rightarrow> dflt)"

definition dict_setdefault :: "('k \<rightharpoonup> 'v) \<Rightarrow> 'k \<Rightarrow> 'v \<Rightarrow> ('k \<rightharpoonup> 'v)" where
  "dict_setdefault d k v = (case d k of Some _ \<Rightarrow> d | None \<Rightarrow> d(k \<mapsto> v))"

text \<open>
  \<^verbatim>\<open>IntegratorFactory.__call__(method)\<close>: the value returned (\<^verbatim>\<open>instances.get\<close>,
  \<open>None\<close> for Python's \<^verbatim>\<open>None\<close>) and the factory afterwards.
\<close>

definition IntegratorFactory_call ::
  "IntegratorFactory \<Rightarrow> string \<Rightarrow> pyobject option \<times> IntegratorFactory" where
  "IntegratorFactory_call self method =
     (let self' = self\<lparr>instances :=
            dict_setdefault (instances self) method
              (dict_get (registry self) method MarinIntegrator)\<rparr>
      in (instances self' method, self'))"

definition integrator_factory :: IntegratorFactory where
  "integrator_factory = IntegratorFactory_init integrator_registry"

section \<open>The formulas the code is compared with\<close>

text \<open>
  The coefficient \<open>C(j + k, j) * C(m + n - j - k, n - k)\<close> over the naturals, the term
  of one polygon edge (the double sum over \<open>j \<le> m\<close>, \<open>k \<le> n\<close>, weighted by the
  cross term of the edge), and the divisor \<open>C(m + n, n) (m + n + 1) (m + n + 2)\<close>.
\<close>

definition binom :: "nat \<Rightarrow> nat \<Rightarrow> nat \<Rightarrow> nat \<Rightarrow> nat" where
  "binom m n j k = ((j + k) choose j) * ((m + n - j - k) choose (n - k))"

definition edge_term :: "nat \<Rightarrow> nat \<Rightarrow> real \<times> real \<Rightarrow> real \<times> real \<Rightarrow> real" where
  "edge_term m n v w =
     (case v of (yi, zi) \<Rightarrow> case w of (yi1, zi1) \<Rightarrow>
        (\<Sum>j\<le>m. \<Sum>k\<le>n.
           real (binom m n j k) * zi ^ (n - k) * zi1 ^ k * yi ^ (m - j) * yi1 ^ j)
        * (yi * zi1 - yi1 * zi))"

definition marin_denominator :: "nat \<Rightarrow> nat \<Rightarrow> nat" where
  "marin_denominator m n = ((m + n) choose n) * (m + n + 1) * (m + n + 2)"

text \<open>
  The edge summation over the consecutive pairs \<open>(i, i + 1)\<close> of the lists only, and the
  edge summation of a closed polygon: over all consecutive pairs, the edge from the last
  vertex back to the first included.
\<close>

definition marin_open_formula :: "real list \<Rightarrow> real list \<Rightarrow> nat \<Rightarrow> nat \<Rightarrow> real" where
  "marin_open_formula y z m n =
     (\<Sum>i<length y - 1. edge_term m n (y ! i, z ! i) (y ! (i + 1), z ! (i + 1)))
       / real (marin_denominator m n)"

definition marin_closed_formula :: "real list \<Rightarrow> real list \<Rightarrow> nat \<Rightarrow> nat \<Rightarrow> real" where
  "marin_closed_formula y z m n =
     (\<Sum>i<length y. edge_term m n (y ! i, z ! i)
          (y ! ((i + 1) mod length y), z ! ((i + 1) mod length y)))
       / real (marin_denominator m n)"

text \<open>The sum of the edge terms along a path of vertices.\<close>

fun path_sum :: "nat \<Rightarrow> nat \<Rightarrow> (real \<times> real) list \<Rightarrow> real" where
  "path_sum m n (v # w # vs) = edge_term m n v w + path_sum m n (w # vs)"
| "path_sum m n vs = 0"






text \<open>
  The signed area of the polygon with the vertices \<open>(y\<^sub>i, z\<^sub>i)\<close> (the first vertex not
  repeated), by the shoelace formula over all its edges, the closing edge included. The
  ring is counter-clockwise when its signed area is positive.
\<close>

definition ring_area :: "real list \<Rightarrow> real list \<Rightarrow> real" where
  "ring_area y z =
     (\<Sum>i<length y. y ! i * z ! ((i + 1) mod length y) - y ! ((i + 1) mod length y) * z ! i) / 2"

definition counter_clockwise :: "real list \<Rightarrow> real list \<Rightarrow> bool" where
  "counter_clockwise y z = (0 < ring_area y z)"

text \<open>
  The invariant of the cache: every stored value is the value of \<^verbatim>\<open>_coeff\<close> at its
  key.
\<close>

definition cache_ok :: "coeff_cache \<Rightarrow> bool" where
  "cache_ok cache = list_all (\<lambda>(key, v). (case key of (m, n, j, k) \<Rightarrow> coeff m n j k) = Inr v) cache"

text \<open>
  The force of a reinforcement point: the stress at the strain of the point (the first
  entry of what \<^verbatim>\<open>get_stress\<close> returns) times its area.
\<close>

definition point_force :: "real \<times> real \<Rightarrow> point_geometry \<Rightarrow> real" where
  "point_force strain_rotated pg =
     hd (get_stress (pmaterial pg) (fst strain_rotated - snd strain_rotated * snd (point pg)))
       * area pg"

subsection \<open>A small section to evaluate the integrator on\<close>

text \<open>
  A material of constant stress \<open>10\<close>, with one stress zone between the strains
  \<open>-1\<close> and \<open>1\<close>; the unit square as a closed
  counter-clockwise ring; an engine for sections that need no rotation (rotation angle
  \<open>0\<close>) and whose strain limits lie outside the section, so that cutting returns the
  whole polygon; a section of the square alone and a section of one reinforcement bar of
  area \<open>1\<close> at \<open>(2, 3)\<close>.
\<close>

definition example_law :: constitutive where
  "example_law = \<lparr>marin = (\<lambda>s. ([(- 1, 1)], [[10]])), get_stress = (\<lambda>e. [10])\<rparr>"

definition unit_square :: polygon where
  "unit_square =
     \<lparr>exterior = \<lparr>xy = ([0, 1, 1, 0, 0], [0, 0, 1, 1, 0]), is_ccw = True\<rparr>,
      interiors = [], bounds = (0, 0, 1, 1)\<rparr>"

definition example_engine :: "unit engine" where
  "example_engine =
     \<lparr>rotate = (\<lambda>geo angle. geo),
      create_line_point_angle = (\<lambda>p angle bbox. ()),
      split_two_lines = (\<lambda>g lines. Polygon (polygon g)),
      orient = (\<lambda>pol sign. pol)\<rparr>"

definition square_section :: compound_geometry where
  "square_section =
     \<lparr>geometries = [\<lparr>polygon = unit_square, material = example_law\<rparr>],
      point_geometries = []\<rparr>"

definition bar_section :: compound_geometry where
  "bar_section =
     \<lparr>geometries = [],
      point_geometries = [\<lparr>point = (2, 3), area = 1, pmaterial = example_law\<rparr>]\<rparr>"

section \<open>Loops as sums\<close>

lemma bnd_Inr [simp]: "bnd (Inr v) f = f v" by (simp add: bnd_def)
lemma bnd_Inl [simp]: "bnd (Inl e) f = Inl e" by (simp add: bnd_def)

lemma for_loop_add:
  fixes g :: "'a \<Rightarrow> real"
  assumes "\<And>x s. x \<in> set xs \<Longrightarrow> body x s = Inr (s + g x)"
  shows "for_loop xs body s = Inr (s + sum_list (map g xs))"
  using assms by (induction xs arbitrary: s) (simp_all add: add.assoc)

lemma range_py_int: "range_py (int n) = map int [0..<n]"
proof (induction n)
  case 0
  show ?case by (simp add: range_py_def)
next
  case (Suc n)
  have "[0..int (Suc n) - 1] = [0..int n - 1] @ [int n]"
    using upto_rec2 [of 0 "int n"] by simp
  with Suc show ?case by (simp add: range_py_def)
qed

lemma sum_list_map_upt: "sum_list (map f [0..<n]) = (\<Sum>i<n. f i)"
  by (simp add: interv_sum_list_conv_sum_set_nat atLeast0LessThan)

lemma getitem_nat: "i < length xs \<Longrightarrow> getitem xs (int i) = Inr (xs ! i)"
  by (simp add: getitem_def)

lemma comb_nat: "comb (int n) (int k) = Inr (int (n choose k))"
  by (simp add: comb_def)

lemma coeff_nat:
  assumes "j \<le> m" "k \<le> n"
  shows "coeff (int m) (int n) (int j) (int k) = Inr (int (binom m n j k))"
proof -
  have a: "int j + int k = int (j + k)" by simp
  have b: "int m + int n - int j - int k = int (m + n - j - k)" using assms by linarith
  have c: "int n - int k = int (n - k)" using assms by linarith
  show ?thesis
    unfolding coeff_def a b c comb_nat by (simp add: binom_def)
qed

lemma for_loop_range_add:
  fixes g :: "nat \<Rightarrow> real"
  assumes "\<And>k s. k < n \<Longrightarrow> body (int k) s = Inr (s + g k)"
  shows "for_loop (range_py (int n)) body s = Inr (s + (\<Sum>k<n. g k))"
proof -
  have "for_loop (map int [0..<n]) body s = Inr (s + sum_list (map (\<lambda>i. g (nat i)) (map int [0..<n])))"
    by (rule for_loop_add) (use assms in auto)
  then show ?thesis
    by (simp add: range_py_int comp_def sum_list_map_upt)
qed

lemma for_loop_range_sum:
  fixes g :: "nat \<Rightarrow> real"
  assumes "\<And>k s. k < n \<Longrightarrow> body (int k) s = Inr (s + g k)"
  shows "for_loop (range_py (int n)) body 0 = Inr (\<Sum>k<n. g k)"
  using for_loop_range_add [of n body g 0, OF assms] by simp

lemma getitem_succ:
  assumes "i + 1 < length xs"
  shows "getitem xs (int i + 1) = Inr (xs ! (i + 1))"
proof -
  have e: "int i + 1 = int (i + 1)" by simp
  show ?thesis unfolding e by (rule getitem_nat [OF assms])
qed

lemma getitem_succ':
  assumes "Suc i < length xs"
  shows "getitem xs (1 + int i) = Inr (xs ! Suc i)"
proof -
  have e: "1 + int i = int (Suc i)" by simp
  show ?thesis unfolding e by (rule getitem_nat [OF assms])
qed

lemma ssk_loop:
  assumes "i + 1 < length z" "j \<le> m"
  shows "for_loop (range_py (int n + 1)) (ssk_step z (int i) (int m) (int n) (int j)) 0 =
           Inr (\<Sum>k\<le>n. real (binom m n j k) * z ! i ^ (n - k) * z ! (i + 1) ^ k)"
proof -
  have step: "ssk_step z (int i) (int m) (int n) (int j) (int k) s =
        Inr (s + real (binom m n j k) * z ! i ^ (n - k) * z ! (i + 1) ^ k)"
    if "k < Suc n" for k s
  proof -
    have k: "k \<le> n" using that by simp
    have i1: "int i + 1 = int (i + 1)" by simp
    have e: "nat (int n - int k) = n - k" by simp
    show ?thesis
      unfolding ssk_step_def i1 coeff_nat [OF assms(2) k]
      using assms(1) by (simp add: getitem_nat getitem_succ' e)
  qed
  have e: "int n + 1 = int (Suc n)" by simp
  show ?thesis
    unfolding e
    using for_loop_range_add [of "Suc n" "ssk_step z (int i) (int m) (int n) (int j)", OF step, of 0]
    by (simp add: lessThan_Suc_atMost)
qed

lemma ssj_loop:
  assumes "i + 1 < length z" "i + 1 < length y"
  shows "for_loop (range_py (int m + 1)) (ssj_step y z (int i) (int m) (int n)) 0 =
           Inr (\<Sum>j\<le>m. (\<Sum>k\<le>n. real (binom m n j k) * z ! i ^ (n - k) * z ! (i + 1) ^ k)
                  * y ! i ^ (m - j) * y ! (i + 1) ^ j)"
proof -
  have step: "ssj_step y z (int i) (int m) (int n) (int j) s =
        Inr (s + (\<Sum>k\<le>n. real (binom m n j k) * z ! i ^ (n - k) * z ! (i + 1) ^ k)
                  * y ! i ^ (m - j) * y ! (i + 1) ^ j)"
    if "j < Suc m" for j s
  proof -
    have j: "j \<le> m" using that by simp
    have i1: "int i + 1 = int (i + 1)" by simp
    have e: "nat (int m - int j) = m - j" by simp
    show ?thesis
      unfolding ssj_step_def ssk_loop [OF assms(1) j] i1
      using assms(2) by (simp add: getitem_nat getitem_succ' e)
  qed
  have e: "int m + 1 = int (Suc m)" by simp
  show ?thesis
    unfolding e
    using for_loop_range_add [of "Suc m" "ssj_step y z (int i) (int m) (int n)", OF step, of 0]
    by (simp add: lessThan_Suc_atMost)
qed

lemma edge_term_nested:
  "(\<Sum>j\<le>m. (\<Sum>k\<le>n. real (binom m n j k) * zi ^ (n - k) * zi1 ^ k) * yi ^ (m - j) * yi1 ^ j)
     * (yi * zi1 - yi1 * zi) = edge_term m n (yi, zi) (yi1, zi1)"
  by (simp add: edge_term_def sum_distrib_right)

lemma mom_step_nat:
  assumes "i + 1 < length z" "i + 1 < length y"
  shows "mom_step y z (int m) (int n) (int i) mom =
           Inr (mom + edge_term m n (y ! i, z ! i) (y ! (i + 1), z ! (i + 1)))"
proof -
  have i1: "int i + 1 = int (i + 1)" by simp
  show ?thesis
    unfolding mom_step_def ssj_loop [OF assms] i1
    using assms by (simp add: getitem_nat getitem_succ' edge_term_nested)
qed

lemma marin_denominator_pos: "0 < marin_denominator m n"
  by (simp add: marin_denominator_def)

lemma marin_integration_nat:
  assumes "length y \<le> length z \<or> length y \<le> 1"
  shows "marin_integration y z (int m) (int n) = Inr (marin_open_formula y z m n)"
proof -
  have step: "mom_step y z (int m) (int n) (int i) mom =
      Inr (mom + edge_term m n (y ! i, z ! i) (y ! (i + 1), z ! (i + 1)))"
    if "i < length y - 1" for i mom
    by (rule mom_step_nat) (use that assms in auto)
  have len: "int (length y) - 1 = int (length y - 1) \<or> length y = 0" by linarith
  have loop: "for_loop (range_py (int (length y) - 1)) (mom_step y z (int m) (int n)) 0 =
      Inr (\<Sum>i<length y - 1. edge_term m n (y ! i, z ! i) (y ! (i + 1), z ! (i + 1)))"
  proof (cases "length y = 0")
    case True
    then show ?thesis by (simp add: range_py_def)
  next
    case False
    with len have e: "int (length y) - 1 = int (length y - 1)" by blast
    show ?thesis
      unfolding e
      by (rule for_loop_range_sum
            [of "length y - 1" "mom_step y z (int m) (int n)"
               "\<lambda>i. edge_term m n (y ! i, z ! i) (y ! (i + 1), z ! (i + 1))"])
         (rule step)
  qed
  have cmb: "comb (int m + int n) (int n) = Inr (int ((m + n) choose n))"
    using comb_nat [of "m + n" n] by simp
  have d: "int ((m + n) choose n) * (int m + int n + 1) * (int m + int n + 2)
             = int (marin_denominator m n)"
    by (simp add: marin_denominator_def algebra_simps)
  have dnz: "int (marin_denominator m n) \<noteq> 0"
    using marin_denominator_pos [of m n] by simp
  show ?thesis
    by (simp only: marin_integration_def loop cmb bnd_Inr Let_def d dnz if_False
          marin_open_formula_def of_int_of_nat_eq)
qed

lemma binom_sym:
  assumes "j \<le> m" "k \<le> n"
  shows "binom m n (m - j) (n - k) = binom m n j k"
proof -
  have a: "m - j + (n - k) = m + n - j - k" using assms by simp
  have b: "m + n - (m - j) - (n - k) = j + k" using assms by simp
  have c: "n - (n - k) = k" using assms by simp
  have d: "(m + n - j - k) choose (m - j) = (m + n - j - k) choose (n - k)"
  proof -
    have "n - k \<le> m + n - j - k" using assms by simp
    from binomial_symmetric [OF this] have "(m + n - j - k) choose (n - k) = (m + n - j - k) choose (m + n - j - k - (n - k))" .
    moreover have "m + n - j - k - (n - k) = m - j" using assms by simp
    ultimately show ?thesis by simp
  qed
  have e: "(j + k) choose k = (j + k) choose j"
    using binomial_symmetric [of k "j + k"] by simp
  show ?thesis
    unfolding binom_def a b c d e by (simp add: mult.commute)
qed

lemma sum_atMost_rev: "(\<Sum>j\<le>(m::nat). g (m - j)) = (\<Sum>j\<le>m. (g j :: real))"
  using sum.nat_diff_reindex [of g "Suc m"] by (simp add: lessThan_Suc_atMost)

lemma edge_term_swap: "edge_term m n w v = - edge_term m n v w"
proof -
  obtain yi zi where v: "v = (yi, zi)" by (cases v)
  obtain yi1 zi1 where w: "w = (yi1, zi1)" by (cases w)
  let ?f = "\<lambda>a b c d j k. real (binom m n j k) * b ^ (n - k) * d ^ k * a ^ (m - j) * c ^ j"
  have "(\<Sum>j\<le>m. \<Sum>k\<le>n. ?f yi1 zi1 yi zi j k) = (\<Sum>j\<le>m. \<Sum>k\<le>n. ?f yi1 zi1 yi zi (m - j) (n - k))"
  proof -
    have "(\<Sum>j\<le>m. \<Sum>k\<le>n. ?f yi1 zi1 yi zi (m - j) (n - k)) = (\<Sum>j\<le>m. \<Sum>k\<le>n. ?f yi1 zi1 yi zi (m - j) k)"
      by (rule sum.cong [OF refl]) (rule sum_atMost_rev)
    also have "\<dots> = (\<Sum>j\<le>m. \<Sum>k\<le>n. ?f yi1 zi1 yi zi j k)"
      by (rule sum_atMost_rev [of "\<lambda>j. \<Sum>k\<le>n. ?f yi1 zi1 yi zi j k"])
    finally show ?thesis by simp
  qed
  also have "\<dots> = (\<Sum>j\<le>m. \<Sum>k\<le>n. ?f yi zi yi1 zi1 j k)"
  proof (intro sum.cong refl)
    fix j k assume "j \<in> {..m}" "k \<in> {..n}"
    then have jk: "j \<le> m" "k \<le> n" by simp_all
    then have "m - (m - j) = j" "n - (n - k) = k" by simp_all
    then show "?f yi1 zi1 yi zi (m - j) (n - k) = ?f yi zi yi1 zi1 j k"
      by (simp add: binom_sym [OF jk])
  qed
  finally show ?thesis
    by (simp add: edge_term_def v w algebra_simps)
qed

lemma path_sum_index:
  "(\<Sum>i<length vs - 1. edge_term m n (vs ! i) (vs ! (i + 1))) = path_sum m n vs"
proof (induction m n vs rule: path_sum.induct)
  case (1 m n v w vs)
  have "(\<Sum>i<length (v # w # vs) - 1. edge_term m n ((v # w # vs) ! i) ((v # w # vs) ! (i + 1)))
      = (\<Sum>i<Suc (length vs). edge_term m n ((v # w # vs) ! i) ((v # w # vs) ! (i + 1)))"
    by simp
  also have "\<dots> = edge_term m n v w + (\<Sum>i<length vs. edge_term m n ((w # vs) ! i) ((w # vs) ! (i + 1)))"
    by (subst sum.lessThan_Suc_shift) simp
  also have "\<dots> = edge_term m n v w + path_sum m n (w # vs)"
    using 1 by simp
  finally show ?case by simp
qed simp_all

lemma marin_open_formula_path:
  assumes "length y = length z"
  shows "marin_open_formula y z m n = path_sum m n (zip y z) / real (marin_denominator m n)"
proof -
  have "(\<Sum>i<length y - 1. edge_term m n (y ! i, z ! i) (y ! (i + 1), z ! (i + 1)))
      = (\<Sum>i<length (zip y z) - 1. edge_term m n (zip y z ! i) (zip y z ! (i + 1)))"
    using assms by (intro sum.cong) auto
  then show ?thesis
    by (simp only: marin_open_formula_def path_sum_index)
qed

lemma path_sum_append:
  "path_sum m n (as @ v # bs) = path_sum m n (as @ [v]) + path_sum m n (v # bs)"
proof (induction as)
  case Nil
  show ?case by simp
next
  case (Cons a as)
  then show ?case by (cases as) simp_all
qed

lemma path_sum_rev: "path_sum m n (rev vs) = - path_sum m n vs"
proof (induction m n vs rule: path_sum.induct)
  case (1 m n v w vs)
  have "path_sum m n (rev (v # w # vs)) = path_sum m n (rev vs @ w # [v])" by simp
  also have "\<dots> = path_sum m n (rev vs @ [w]) + path_sum m n [w, v]"
    by (rule path_sum_append)
  also have "\<dots> = - path_sum m n (w # vs) + edge_term m n w v"
    using 1 by simp
  also have "\<dots> = - path_sum m n (v # w # vs)"
    by (simp add: edge_term_swap [of m n w v])
  finally show ?case .
qed simp_all


lemmas marin_eval = marin_integration_def mom_step_def ssj_step_def ssk_step_def coeff_def
  comb_def getitem_def range_py_def bnd_def upto.simps

lemma edge_term_00: "edge_term 0 0 (a, b) (c, d) = a * d - c * b"
  by (simp add: edge_term_def binom_def)

lemma marin_denominator_00: "marin_denominator 0 0 = 2"
  by (simp add: marin_denominator_def)

lemma lessThan_4: "{..<4::nat} = {0, 1, 2, 3}"
  by auto

lemma closed_ring_formula:
  assumes "length y = length z"
  shows "marin_open_formula (y @ [hd y]) (z @ [hd z]) m n = marin_closed_formula y z m n"
proof (cases "y = []")
  case True
  then show ?thesis by (simp add: marin_open_formula_def marin_closed_formula_def)
next
  case False
  with assms have nz: "z \<noteq> []" by auto
  have "edge_term m n ((y @ [hd y]) ! i, (z @ [hd z]) ! i)
          ((y @ [hd y]) ! (i + 1), (z @ [hd z]) ! (i + 1))
      = edge_term m n (y ! i, z ! i)
          (y ! ((i + 1) mod length y), z ! ((i + 1) mod length y))"
    if "i < length y" for i
  proof (cases "i + 1 < length y")
    case True
    with that assms show ?thesis by (simp add: nth_append)
  next
    case False
    with that have e: "i + 1 = length y" by simp
    then have "(i + 1) mod length y = 0" by simp
    with e that assms False \<open>y \<noteq> []\<close> nz show ?thesis
      by (simp add: nth_append hd_conv_nth)
  qed
  then have "(\<Sum>i<length y. edge_term m n ((y @ [hd y]) ! i, (z @ [hd z]) ! i)
          ((y @ [hd y]) ! (i + 1), (z @ [hd z]) ! (i + 1)))
      = (\<Sum>i<length y. edge_term m n (y ! i, z ! i)
          (y ! ((i + 1) mod length y), z ! ((i + 1) mod length y)))"
    by (intro sum.cong) auto
  then show ?thesis
    by (simp add: marin_open_formula_def marin_closed_formula_def)
qed

lemma zip_rev_eq: "length y = length z \<Longrightarrow> zip (rev y) (rev z) = rev (zip y z)"
  by (simp add: zip_rev)

lemma marin_open_formula_rev:
  assumes "length y = length z"
  shows "marin_open_formula (rev y) (rev z) m n = - marin_open_formula y z m n"
proof -
  have "marin_open_formula (rev y) (rev z) m n
      = path_sum m n (zip (rev y) (rev z)) / real (marin_denominator m n)"
    by (rule marin_open_formula_path) (simp add: assms)
  also have "\<dots> = - (path_sum m n (zip y z) / real (marin_denominator m n))"
    by (simp add: zip_rev_eq [OF assms] path_sum_rev)
  finally show ?thesis by (simp add: marin_open_formula_path [OF assms])
qed






section \<open>The cache, the parts and the zero curvature\<close>

lemma cache_ok_lookup:
  assumes "cache_ok cache" "map_of cache key = Some v"
  shows "(case key of (m, n, j, k) \<Rightarrow> coeff m n j k) = Inr v"
proof -
  from assms(2) have "(key, v) \<in> set cache" by (rule map_of_SomeD)
  with assms(1) show ?thesis by (auto simp: cache_ok_def list_all_iff)
qed

lemma coeff_cached_fst:
  assumes "cache_ok cache"
  shows "fst (coeff_cached key cache) = (case key of (m, n, j, k) \<Rightarrow> coeff m n j k)"
proof (cases "map_of cache key")
  case None
  then show ?thesis by (simp add: coeff_cached_def split: sum.splits)
next
  case (Some v)
  with cache_ok_lookup [OF assms Some] show ?thesis by (simp add: coeff_cached_def)
qed

lemma cache_ok_step:
  assumes "cache_ok cache"
  shows "cache_ok (snd (coeff_cached key cache))"
proof (cases "map_of cache key")
  case None
  show ?thesis
  proof (cases "case key of (m, n, j, k) \<Rightarrow> coeff m n j k")
    case (Inl e)
    with None assms show ?thesis by (simp add: coeff_cached_def)
  next
    case (Inr v)
    have "set (take 127 cache) \<subseteq> set cache" by (rule set_take_subset)
    with assms have "cache_ok (take 127 cache)" by (auto simp: cache_ok_def list_all_iff)
    with None Inr show ?thesis
      by (simp add: coeff_cached_def cache_ok_def numeral_eq_Suc)
  qed
next
  case (Some v)
  from cache_ok_lookup [OF assms Some] assms Some show ?thesis
    by (auto simp: coeff_cached_def cache_ok_def list_all_iff)
qed

lemma cache_ok_after: "cache_ok cache \<Longrightarrow> cache_ok (cache_after keys cache)"
  by (induction keys arbitrary: cache) (simp_all add: cache_ok_step)

lemma cache_ok_empty: "cache_ok []"
  by (simp add: cache_ok_def)

lemma transpose_col: "transpose [[a], [b]] = [[a, b :: real]]"
  by (simp add: transpose.simps)

lemma point_loop:
  assumes "\<forall>pg\<in>set pgs. get_stress (pmaterial pg) (fst sr - snd sr * snd (point pg)) \<noteq> []"
  shows "for_loop pgs (point_step sr) (x, y, F) =
           Inr (x @ map (\<lambda>pg. fst (point pg)) pgs, y @ map (\<lambda>pg. snd (point pg)) pgs,
                F @ map (point_force sr) pgs)"
  using assms
proof (induction pgs arbitrary: x y F)
  case Nil
  show ?case by simp
next
  case (Cons pg pgs)
  obtain xp yp where p: "point pg = (xp, yp)" by (cases "point pg")
  from Cons.prems obtain s ss where g: "get_stress (pmaterial pg) (fst sr - snd sr * yp) = s # ss"
    by (cases "get_stress (pmaterial pg) (fst sr - snd sr * yp)") (auto simp: p)
  have step: "point_step sr pg (x, y, F) = Inr (x @ [xp], y @ [yp], F @ [point_force sr pg])"
    by (simp add: point_step_def p g getitem_def point_force_def)
  from Cons.prems have "\<forall>pg\<in>set pgs. get_stress (pmaterial pg) (fst sr - snd sr * snd (point pg)) \<noteq> []"
    by simp
  from Cons.IH [OF this] step p show ?case by simp
qed

lemma np_mul_map: "np_mul (map f xs) (map g xs) = Inr (map (\<lambda>x. f x * g x) xs)"
  by (simp add: np_mul_def zip_map_map map2_map_map) (induction xs; simp)

lemma surface_step_no_limits:
  "fst (marin (material g) sr) = [] \<Longrightarrow> surface_step eng sr g acc = Inr acc"
  by (cases "marin (material g) sr") (simp add: surface_step_def range_py_def)

lemma surface_step_zero_curvature:
  assumes "fst (marin (material g) (ea, 0)) \<noteq> []"
  shows "surface_step eng (ea, 0) g acc = Inl ZeroDivisionError"
proof -
  obtain strains coeffs where m: "marin (material g) (ea, 0) = (strains, coeffs)"
    by (cases "marin (material g) (ea, 0)")
  with assms have ne: "strains \<noteq> []" by simp
  then have r: "range_py (int (length strains)) = 0 # [1..int (length strains) - 1]"
    by (simp add: range_py_def upto_rec1)
  have g: "getitem strains 0 = Inr (strains ! 0)" using ne by (simp add: getitem_def)
  have s: "strain_limit_step eng g (ea, 0) strains coeffs 0 acc = Inl ZeroDivisionError"
    by (simp add: strain_limit_step_def g truediv_def)
  show ?thesis by (simp add: surface_step_def m r s)
qed

lemma surface_loop_zero_curvature:
  "for_loop gs (surface_step eng (ea, 0)) acc =
     (if \<exists>g\<in>set gs. fst (marin (material g) (ea, 0)) \<noteq> [] then Inl ZeroDivisionError
      else Inr acc)"
proof (induction gs)
  case Nil
  show ?case by simp
next
  case (Cons g gs)
  show ?case
  proof (cases "fst (marin (material g) (ea, 0)) = []")
    case True
    with Cons show ?thesis by (simp add: surface_step_no_limits)
  next
    case False
    then show ?thesis by (simp add: surface_step_zero_curvature)
  qed
qed

lemma atan2_origin: "atan2 0 0 = 0"
  by (simp add: atan2_def)

lemmas example_defs = example_engine_def square_section_def bar_section_def example_law_def
  unit_square_def

lemmas prepare_eval = prepare_input_def surface_step_def strain_limit_step_def
  get_input_polygon_def hole_step_def point_step_def truediv_def atan2_def getitem_def
  range_py_def upto.simps bnd_def

lemmas integrate_eval = integrate_strain_response_on_geometry_def integrate_def
  integrate_part_def np_mul_def matmul_def transpose.simps

lemma square_section_with_curvature:
  "integrate_strain_response_on_geometry example_engine square_section (0, 1, 0)
     = Inr (10, 5, 5)"
  by (simp add: example_defs prepare_eval integrate_eval marin_eval)

section \<open>The edge terms along a line\<close>































subsection \<open>Collinear rings\<close>





subsection \<open>Signed area and orientation\<close>

lemma marin_closed_formula_area: "marin_closed_formula y z 0 0 = ring_area y z"
  by (simp add: marin_closed_formula_def ring_area_def edge_term_00 marin_denominator_00)

lemma marin_closed_ring_area:
  assumes "length y = length z"
  shows "marin_integration (y @ [hd y]) (z @ [hd z]) 0 0 = Inr (ring_area y z)"
proof -
  have "marin_integration (y @ [hd y]) (z @ [hd z]) (int 0) (int 0)
      = Inr (marin_open_formula (y @ [hd y]) (z @ [hd z]) 0 0)"
    by (rule marin_integration_nat) (simp add: assms)
  then show ?thesis
    by (simp add: closed_ring_formula [OF assms] marin_closed_formula_area)
qed

lemma marin_reverse:
  assumes "length y = length z"
  shows "marin_integration y z (int m) (int n) = Inr (marin_open_formula y z m n)"
    and "marin_integration (rev y) (rev z) (int m) (int n) = Inr (- marin_open_formula y z m n)"
proof -
  show "marin_integration y z (int m) (int n) = Inr (marin_open_formula y z m n)"
    by (rule marin_integration_nat) (simp add: assms)
  have "marin_integration (rev y) (rev z) (int m) (int n)
      = Inr (marin_open_formula (rev y) (rev z) m n)"
    by (rule marin_integration_nat) (simp add: assms)
  then show "marin_integration (rev y) (rev z) (int m) (int n) = Inr (- marin_open_formula y z m n)"
    by (simp add: marin_open_formula_rev [OF assms])
qed

lemma lessThan_3: "{..<3::nat} = {0, 1, 2}"
  by auto

lemma bow_tie_moments:
  "marin_integration [0, 1, 1, 0, 0] [0, 1, 0, 1, 0] 0 0 = Inr 0 \<and>
   marin_integration [0, 1, 1, 0, 0] [0, 1, 0, 1, 0] 1 0 = Inr (- (1 / 6))"
  by (simp add: marin_eval)

section \<open>The claims\<close>

subsection \<open>The edge summation of \<^verbatim>\<open>marin_integration\<close>\<close>

text \<open>
  Claim C2, as amended. For coordinate lists \<open>y\<close>, \<open>z\<close> of equal length and orders
  \<open>m, n \<ge> 0\<close>, \<^verbatim>\<open>marin_integration(y, z, m, n)\<close> returns the Marin edge summation over
  the consecutive pairs \<open>(i, i + 1)\<close>, \<open>i = 0, \<dots>, len(y) - 2\<close>, divided by
  \<open>C(m + n, n) (m + n + 1) (m + n + 2)\<close>: the loop is \<^verbatim>\<open>range(len(y) - 1)\<close> and there is
  no edge from the last entry back to the first. The result is the summation over all
  edges of the closed polygon, the closing edge included, when the ring is passed closed,
  that is with its first vertex repeated as the last entry (as the coordinate sequences of
  the polygon library are).
\<close>

theorem marin_integration_edge_sum:
  assumes "length y = length z"
  shows "marin_integration y z (int m) (int n) = Inr (marin_open_formula y z m n) \<and>
         marin_integration (y @ [hd y]) (z @ [hd z]) (int m) (int n)
           = Inr (marin_closed_formula y z m n)"
proof -
  have a: "marin_integration y z (int m) (int n) = Inr (marin_open_formula y z m n)"
    by (rule marin_integration_nat) (simp add: assms)
  have "marin_integration (y @ [hd y]) (z @ [hd z]) (int m) (int n)
      = Inr (marin_open_formula (y @ [hd y]) (z @ [hd z]) m n)"
    by (rule marin_integration_nat) (simp add: assms)
  with a show ?thesis by (simp add: closed_ring_formula [OF assms])
qed

text \<open>
  The theorem at the square with corners \<open>(1,1), (2,1), (2,2), (1,2)\<close> and order
  \<open>(0, 0)\<close>: the open list gives \<open>3/2\<close>, the closed ring the area \<open>1\<close>.
\<close>

theorem marin_integration_edge_sum_witness:
  "length [1, 2, 2, 1 :: real] = length [1, 1, 2, 2 :: real] \<and>
   marin_integration [1, 2, 2, 1] [1, 1, 2, 2] 0 0 = Inr (3 / 2) \<and>
   marin_integration [1, 2, 2, 1, 1] [1, 1, 2, 2, 1] 0 0 = Inr 1 \<and>
   marin_closed_formula [1, 2, 2, 1] [1, 1, 2, 2] 0 0 = 1"
proof -
  have c: "marin_closed_formula [1, 2, 2, 1] [1, 1, 2, 2] 0 0 = 1"
    by (simp add: marin_closed_formula_def edge_term_00 marin_denominator_00 lessThan_4)
  have o: "marin_integration [1, 2, 2, 1] [1, 1, 2, 2] 0 0 = Inr (3 / 2)"
    by (simp add: marin_eval)
  have "length [1, 2, 2, 1 :: real] = length [1, 1, 2, 2 :: real]" by simp
  from marin_integration_edge_sum [OF this, of 0 0] c o show ?thesis by simp
qed

text \<open>
  Claim C2 as it is stated, with the edge from the last vertex back to the first, fails
  on the same square when its first vertex is not repeated: the code returns \<open>3/2\<close>, the
  closed formula is \<open>1\<close>.
\<close>

theorem marin_integration_wrap_counterexample:
  "marin_integration [1, 2, 2, 1] [1, 1, 2, 2] 0 0 = Inr (3 / 2) \<and>
   marin_closed_formula [1, 2, 2, 1] [1, 1, 2, 2] 0 0 = 1 \<and>
   marin_integration [1, 2, 2, 1] [1, 1, 2, 2] 0 0
     \<noteq> Inr (marin_closed_formula [1, 2, 2, 1] [1, 1, 2, 2] 0 0)"
proof -
  have c: "marin_closed_formula [1, 2, 2, 1] [1, 1, 2, 2] 0 0 = 1"
    by (simp add: marin_closed_formula_def edge_term_00 marin_denominator_00 lessThan_4)
  have o: "marin_integration [1, 2, 2, 1] [1, 1, 2, 2] 0 0 = Inr (3 / 2)"
    by (simp add: marin_eval)
  from c o show ?thesis by simp
qed

subsection \<open>The unit square\<close>

text \<open>
  Claim C4. For the unit square \<open>(0,0), (1,0), (1,1), (0,1)\<close>, counter-clockwise and
  with the first vertex not repeated, \<^verbatim>\<open>marin_integration\<close> returns \<open>1\<close> for the order
  \<open>(0, 0)\<close> and \<open>1/2\<close> for the orders \<open>(1, 0)\<close> and \<open>(0, 1)\<close>. (The missing closing
  edge starts and ends on the axes through the origin, so its term is zero.)
\<close>

theorem unit_square_moments:
  "marin_integration [0, 1, 1, 0] [0, 0, 1, 1] 0 0 = Inr 1 \<and>
   marin_integration [0, 1, 1, 0] [0, 0, 1, 1] 1 0 = Inr (1 / 2) \<and>
   marin_integration [0, 1, 1, 0] [0, 0, 1, 1] 0 1 = Inr (1 / 2)"
  by (simp add: marin_eval)

subsection \<open>Degenerate rings\<close>




subsection \<open>Reversing the vertex order\<close>

text \<open>
  Claim C5, as amended. For coordinate lists \<open>y\<close>, \<open>z\<close> of equal length and orders
  \<open>m, n \<ge> 0\<close>, \<^verbatim>\<open>marin_integration\<close> returns on both the list and the reversed
  list, and the moment of the reversed vertex order is the negated moment. For a ring
  passed closed (first vertex repeated as the last entry) the moment of order \<open>(0, 0)\<close>
  is the signed area of the ring: positive for a counter-clockwise ring, and its negation
  for the same ring clockwise. (A moment of another order has the sign of the integral of
  \<open>y\<^sup>m z\<^sup>n\<close> over the ring and need not be positive for a counter-clockwise ring.)
\<close>

theorem marin_integration_reverse:
  assumes "length y = length z"
  shows "(\<exists>r. marin_integration y z (int m) (int n) = Inr r \<and>
              marin_integration (rev y) (rev z) (int m) (int n) = Inr (- r)) \<and>
         marin_integration (y @ [hd y]) (z @ [hd z]) 0 0 = Inr (ring_area y z) \<and>
         marin_integration (rev (y @ [hd y])) (rev (z @ [hd z])) 0 0 = Inr (- ring_area y z) \<and>
         (counter_clockwise y z \<longrightarrow>
            (\<exists>a. 0 < a \<and> marin_integration (y @ [hd y]) (z @ [hd z]) 0 0 = Inr a \<and>
                 marin_integration (rev (y @ [hd y])) (rev (z @ [hd z])) 0 0 = Inr (- a)))"
proof -
  have l: "length (y @ [hd y]) = length (z @ [hd z])" using assms by simp
  have a: "marin_integration (y @ [hd y]) (z @ [hd z]) 0 0 = Inr (ring_area y z)"
    by (rule marin_closed_ring_area [OF assms])
  have "marin_integration (y @ [hd y]) (z @ [hd z]) (int 0) (int 0)
      = Inr (marin_open_formula (y @ [hd y]) (z @ [hd z]) 0 0)"
    by (rule marin_reverse(1) [OF l])
  with a have e: "marin_open_formula (y @ [hd y]) (z @ [hd z]) 0 0 = ring_area y z" by simp
  have "marin_integration (rev (y @ [hd y])) (rev (z @ [hd z])) (int 0) (int 0)
      = Inr (- marin_open_formula (y @ [hd y]) (z @ [hd z]) 0 0)"
    by (rule marin_reverse(2) [OF l])
  then have b: "marin_integration (rev (y @ [hd y])) (rev (z @ [hd z])) 0 0
      = Inr (- ring_area y z)"
    unfolding e by simp
  from marin_reverse [OF assms, of m n] a b show ?thesis
    unfolding counter_clockwise_def by blast
qed

text \<open>
  The theorem at the closed unit square and the order \<open>(1, 0)\<close>, and at the
  counter-clockwise triangle \<open>(0,10), (1,10), (1,11)\<close> of area \<open>1/2\<close>.
\<close>

theorem marin_integration_reverse_witness:
  "marin_integration [0, 1, 1, 0, 0] [0, 0, 1, 1, 0] 1 0 = Inr (1 / 2) \<and>
   marin_integration (rev [0, 1, 1, 0, 0]) (rev [0, 0, 1, 1, 0]) 1 0 = Inr (- (1 / 2)) \<and>
   counter_clockwise [0, 1, 1] [10, 10, 11] \<and>
   ring_area [0, 1, 1] [10, 10, 11] = 1 / 2 \<and>
   marin_integration [0, 1, 1, 0] [10, 10, 11, 10] 0 0 = Inr (1 / 2) \<and>
   marin_integration [0, 1, 1, 0] [10, 11, 10, 10] 0 0 = Inr (- (1 / 2))"
proof -
  have l: "length [0, 1, 1, 0, 0 :: real] = length [0, 0, 1, 1, 0 :: real]" by simp
  have v: "marin_integration [0, 1, 1, 0, 0] [0, 0, 1, 1, 0] 1 0 = Inr (1 / 2)"
    by (simp add: marin_eval)
  have t: "length [0, 1, 1 :: real] = length [10, 10, 11 :: real]" by simp
  have r: "ring_area [0, 1, 1] [10, 10, 11] = 1 / 2"
    by (simp add: ring_area_def lessThan_3)
  from marin_integration_reverse [OF l, of 1 0] marin_integration_reverse [OF t, of 0 0] v r
  show ?thesis by (auto simp: counter_clockwise_def)
qed

text \<open>
  Claim C5 as it is stated fails in two ways. A counter-clockwise ring need not have a
  positive moment: the closed counter-clockwise unit square with the corners
  \<open>(-1,0), (0,0), (0,1), (-1,1)\<close> has the moment \<open>-1/2\<close> of order \<open>(1, 0)\<close>. And for
  lists of different lengths reversal does not negate: \<open>y = [1, 2]\<close>, \<open>z = [0, 1, 5]\<close>
  give \<open>1/2\<close>, the reversed lists \<open>-3/2\<close>.
\<close>

theorem marin_integration_positive_counterexample:
  "counter_clockwise [- 1, 0, 0, - 1] [0, 0, 1, 1] \<and>
   marin_integration [- 1, 0, 0, - 1, - 1] [0, 0, 1, 1, 0] 1 0 = Inr (- (1 / 2)) \<and>
   marin_integration [1, 2] [0, 1, 5] 0 0 = Inr (1 / 2) \<and>
   marin_integration (rev [1, 2]) (rev [0, 1, 5]) 0 0 = Inr (- (3 / 2))"
  by (simp add: counter_clockwise_def ring_area_def lessThan_4 marin_eval)

subsection \<open>The coefficient and its cache\<close>

text \<open>
  Claim C9. For non-negative integers \<open>m\<close>, \<open>n\<close>, \<open>j \<le> m\<close>, \<open>k \<le> n\<close> the
  coefficient helper returns \<open>C(j + k, j) * C(m + n - j - k, n - k)\<close>, and so does the
  cached helper after any sequence of earlier calls: the same quadruple always gets the
  same value, whatever was called before.
\<close>

theorem coeff_cached_value:
  assumes "j \<le> m" "k \<le> n"
  shows "coeff (int m) (int n) (int j) (int k)
           = Inr (int (((j + k) choose j) * ((m + n - j - k) choose (n - k)))) \<and>
         fst (coeff_cached (int m, int n, int j, int k) (cache_after keys []))
           = Inr (int (((j + k) choose j) * ((m + n - j - k) choose (n - k))))"
  using coeff_nat [OF assms] coeff_cached_fst [OF cache_ok_after [OF cache_ok_empty], of "(int m, int n, int j, int k)" keys]
  by (simp add: binom_def)

text \<open>
  The theorem at \<open>(m, n, j, k) = (2, 3, 1, 1)\<close>: the value \<open>C(2,1) * C(3,2) = 6\<close>, on
  the empty cache and after three calls, one of them with the same quadruple.
\<close>

theorem coeff_cached_value_witness:
  "(1::nat) \<le> 2 \<and> (1::nat) \<le> 3 \<and> coeff 2 3 1 1 = Inr 6 \<and>
   fst (coeff_cached (2, 3, 1, 1) (cache_after [(2, 3, 1, 1), (0, 0, 0, 0), (4, 4, 2, 2)] [])) = Inr 6 \<and>
   fst (coeff_cached (2, 3, 1, 1) []) = Inr 6"
proof -
  have c: "(3::nat) choose 2 = 3" by (simp add: numeral_eq_Suc)
  have d: "(2::nat) choose 1 = 2" by simp
  have "(1::nat) \<le> 2" "(1::nat) \<le> 3" by simp_all
  from coeff_cached_value [OF this, of "[(2, 3, 1, 1), (0, 0, 0, 0), (4, 4, 2, 2)]"]
    coeff_cached_value [OF this, of "[]"]
  show ?thesis by (simp add: c d)
qed

subsection \<open>The density of a material\<close>

text \<open>
  Claim C10. For every density \<open>d\<close>, negative ones included, the constructor of
  \<^verbatim>\<open>Material\<close> returns a material, and its \<^verbatim>\<open>density\<close> property is \<open>\<bar>d\<bar>\<close>,
  which is not negative.
\<close>

theorem Material_density_abs:
  "density (Material_init d nm) = \<bar>d\<bar> \<and> 0 \<le> density (Material_init d nm)"
  by (simp add: density_def Material_init_def)

subsection \<open>The integrator factory\<close>

text \<open>
  Claim C8. For every name, known to the registry or not, the factory stores and returns
  the class object \<^verbatim>\<open>MarinIntegrator\<close> itself, on the first call and on the second:
  the same object both times and the Marin default for an unknown name, but no instance
  of an integrator is ever created.
\<close>

theorem IntegratorFactory_returns_class:
  "IntegratorFactory_call integrator_factory method
     = (Some (Class ''MarinIntegrator''),
        integrator_factory\<lparr>instances := [method \<mapsto> Class ''MarinIntegrator'']\<rparr>) \<and>
   IntegratorFactory_call (snd (IntegratorFactory_call integrator_factory method)) method
     = (Some (Class ''MarinIntegrator''),
        integrator_factory\<lparr>instances := [method \<mapsto> Class ''MarinIntegrator'']\<rparr>)"
  by (simp add: IntegratorFactory_call_def integrator_factory_def IntegratorFactory_init_def
      integrator_registry_def MarinIntegrator_def dict_get_def dict_setdefault_def Let_def)

subsection \<open>Rotating the moments back\<close>

text \<open>
  Claim C6. When the loop over the prepared parts has accumulated \<open>(N, Mx, My)\<close>,
  \<^verbatim>\<open>integrate\<close> returns \<open>N\<close> unchanged and the moments
  \<open>cos(angle) Mx + sin(angle) My\<close> and \<open>- sin(angle) Mx + cos(angle) My\<close>, for every
  angle.
\<close>

theorem integrate_rotates_back:
  assumes "for_loop prepared_input integrate_part (0, 0, 0) = Inr (N, Mx, My)"
  shows "integrate angle prepared_input
           = Inr (N, cos angle * Mx + sin angle * My, - sin angle * Mx + cos angle * My)"
  using assms by (simp add: integrate_def matmul_def transpose_col)

text \<open>
  The theorem at a quarter turn, for one reinforcement part with \<open>N = 10\<close>,
  \<open>Mx = 30\<close>, \<open>My = 20\<close>.
\<close>

theorem integrate_rotates_back_witness:
  "for_loop [(1, [2], [3], [10])] integrate_part (0, 0, 0) = Inr (10, 30, 20) \<and>
   integrate (pi / 2) [(1, [2], [3], [10])] = Inr (10, 20, - 30)"
proof -
  have h: "for_loop [(1, [2], [3], [10])] integrate_part (0, 0, 0) = Inr (10, 30, 20)"
    by (simp add: integrate_part_def np_mul_def)
  from integrate_rotates_back [OF h, of "pi / 2"] h show ?thesis by simp
qed

subsection \<open>Reinforcement points\<close>

text \<open>
  Claim C7. For reinforcement points whose materials return a stress, \<^verbatim>\<open>prepare_input\<close>
  collects the rotated coordinates \<open>(y, z)\<close> of the points and the forces
  \<open>F = stress(strain at the point) * area\<close>, and \<^verbatim>\<open>integrate\<close> adds for every point
  \<open>F\<close> to \<open>N\<close>, \<open>F z\<close> to \<open>Mx\<close> and \<open>F y\<close> to \<open>My\<close>.
\<close>

theorem point_zone_contribution:
  assumes "\<forall>pg\<in>set pgs. get_stress (pmaterial pg) (ea - \<kappa> * snd (point pg)) \<noteq> []"
  shows "for_loop pgs (point_step (ea, \<kappa>)) ([], [], []) =
           Inr (map (\<lambda>pg. fst (point pg)) pgs, map (\<lambda>pg. snd (point pg)) pgs,
                map (point_force (ea, \<kappa>)) pgs) \<and>
         integrate_part
           (1, map (\<lambda>pg. fst (point pg)) pgs, map (\<lambda>pg. snd (point pg)) pgs,
            map (point_force (ea, \<kappa>)) pgs) (N, Mx, My) =
           Inr (N + (\<Sum>pg\<leftarrow>pgs. point_force (ea, \<kappa>) pg),
                Mx + (\<Sum>pg\<leftarrow>pgs. point_force (ea, \<kappa>) pg * snd (point pg)),
                My + (\<Sum>pg\<leftarrow>pgs. point_force (ea, \<kappa>) pg * fst (point pg)))"
proof -
  have "for_loop pgs (point_step (ea, \<kappa>)) ([], [], []) =
           Inr ([] @ map (\<lambda>pg. fst (point pg)) pgs, [] @ map (\<lambda>pg. snd (point pg)) pgs,
                [] @ map (point_force (ea, \<kappa>)) pgs)"
    by (rule point_loop) (use assms in simp)
  then show ?thesis
    by (simp add: integrate_part_def np_mul_map)
qed

text \<open>
  The theorem at one point at \<open>(y, z) = (2, 3)\<close> of area \<open>1\<close> and constant stress
  \<open>10\<close>: it adds \<open>10\<close>, \<open>30\<close> and \<open>20\<close>, and at rotation angle zero this is the
  response of the section of this point alone.
\<close>

theorem point_zone_contribution_witness:
  "for_loop (point_geometries bar_section) (point_step (0, 0)) ([], [], [])
     = Inr ([2], [3], [10]) \<and>
   integrate_part (1, [2], [3], [10]) (0, 0, 0) = Inr (10, 30, 20) \<and>
   integrate_strain_response_on_geometry example_engine bar_section (0, 0, 0)
     = Inr (10, 30, 20)"
proof -
  have r: "integrate_strain_response_on_geometry example_engine bar_section (0, 0, 0)
     = Inr (10, 30, 20)"
    by (simp add: example_defs prepare_eval integrate_eval)
  from point_zone_contribution [of "point_geometries bar_section" 0 0 0 0 0] r
  show ?thesis
    by (simp add: example_defs point_force_def)
qed

subsection \<open>Zero curvature\<close>

text \<open>
  Claim C1, as amended. For a strain plane of zero curvature, \<open>(\<epsilon>\<^sub>0, 0, 0)\<close>, there is
  no uniform-strain path in \<^verbatim>\<open>prepare_input\<close>: the rotation angle is
  \<^verbatim>\<open>atan2(0, 0) = 0\<close> and the rotated curvature is \<open>0\<close>. As soon as the material of
  a surface geometry reports a strain interval, the bound of the interval is divided by
  the curvature and the call ends with \<^verbatim>\<open>ZeroDivisionError\<close>, in \<^verbatim>\<open>prepare_input\<close>
  and so in \<^verbatim>\<open>integrate_strain_response_on_geometry\<close>. Only when no surface geometry
  reports a strain interval does the call go on to the reinforcement points, with the
  uniform strain \<open>\<epsilon>\<^sub>0\<close> at every point. (All of this for Python floats, whose
  division by zero raises.)
\<close>

theorem zero_curvature_divides_by_zero:
  "prepare_input eng geo (ea, 0, 0) =
     (if \<exists>g\<in>set (geometries (rotate eng geo 0)). fst (marin (material g) (ea, 0)) \<noteq> []
      then Inl ZeroDivisionError
      else bnd (for_loop (point_geometries (rotate eng geo 0)) (point_step (ea, 0)) ([], [], []))
             (\<lambda>(x, y, F). Inr (0, [(1, x, y, F)]))) \<and>
   integrate_strain_response_on_geometry eng geo (ea, 0, 0) =
     (if \<exists>g\<in>set (geometries (rotate eng geo 0)). fst (marin (material g) (ea, 0)) \<noteq> []
      then Inl ZeroDivisionError
      else bnd (for_loop (point_geometries (rotate eng geo 0)) (point_step (ea, 0)) ([], [], []))
             (\<lambda>(x, y, F). integrate 0 [(1, x, y, F)]))"
proof -
  have p: "prepare_input eng geo (ea, 0, 0) =
     (if \<exists>g\<in>set (geometries (rotate eng geo 0)). fst (marin (material g) (ea, 0)) \<noteq> []
      then Inl ZeroDivisionError
      else bnd (for_loop (point_geometries (rotate eng geo 0)) (point_step (ea, 0)) ([], [], []))
             (\<lambda>(x, y, F). Inr (0, [(1, x, y, F)])))"
    by (simp add: prepare_input_def atan2_origin surface_loop_zero_curvature)
  have "integrate_strain_response_on_geometry eng geo (ea, 0, 0) =
     (if \<exists>g\<in>set (geometries (rotate eng geo 0)). fst (marin (material g) (ea, 0)) \<noteq> []
      then Inl ZeroDivisionError
      else bnd (for_loop (point_geometries (rotate eng geo 0)) (point_step (ea, 0)) ([], [], []))
             (\<lambda>(x, y, F). integrate 0 [(1, x, y, F)]))"
    unfolding integrate_strain_response_on_geometry_def p
    by (simp add: bnd_def split: sum.splits prod.splits)
  with p show ?thesis by simp
qed

text \<open>
  The theorem at the homogeneous unit square, where the call raises, and at the section
  of one reinforcement bar, where it returns.
\<close>

theorem zero_curvature_divides_by_zero_witness:
  "prepare_input example_engine square_section (1 / 1000, 0, 0) = Inl ZeroDivisionError \<and>
   prepare_input example_engine bar_section (1 / 1000, 0, 0) = Inr (0, [(1, [2], [3], [10])]) \<and>
   integrate_strain_response_on_geometry example_engine bar_section (1 / 1000, 0, 0)
     = Inr (10, 30, 20)"
  using zero_curvature_divides_by_zero [of example_engine square_section "1 / 1000"]
    zero_curvature_divides_by_zero [of example_engine bar_section "1 / 1000"]
  by (simp add: example_defs point_step_def getitem_def integrate_def integrate_part_def
      np_mul_def matmul_def transpose.simps)

text \<open>
  Claim C1 as it is stated fails on the homogeneous unit square under the uniform strain
  \<open>1/1000\<close>: the call raises \<^verbatim>\<open>ZeroDivisionError\<close> where the claim has the result
  \<open>N = 10\<close>, \<open>Mx = My = 0\<close>.
\<close>

theorem zero_curvature_counterexample:
  "prepare_input example_engine square_section (1 / 1000, 0, 0) = Inl ZeroDivisionError \<and>
   integrate_strain_response_on_geometry example_engine square_section (1 / 1000, 0, 0)
     = Inl ZeroDivisionError"
  by (simp add: example_defs prepare_eval integrate_strain_response_on_geometry_def)

end
